theory Spec2Isabelle
  imports Complex_Main
begin

section \<open>Python values and exceptions\<close>

text \<open>
  The remote response is whatever \<^verbatim>\<open>response.json()\<close> yields: a Python value built
  from \<^verbatim>\<open>None\<close>, booleans, integers, floats, strings, lists and dictionaries with
  string keys. A dictionary is an association list read with \<open>map_of\<close>.
  Of a float only its type and its truth value matter to the code.
\<close>

datatype pyfloat = Finite rat | Infinite bool | NaN

datatype json =
    JNull
  | JBool bool
  | JInt int
  | JFloat pyfloat
  | JStr string
  | JArr "json list"
  | JObj "(string \<times> json) list"

text \<open>
  Exceptions are values: a class and the text that \<^verbatim>\<open>str(e)\<close> gives. Every class
  below derives from Python's \<^verbatim>\<open>Exception\<close>; \<open>HTTPError\<close>, \<open>ConnectionError\<close> and
  \<open>JSONDecodeError\<close> are those of the requests library and derive from its
  \<open>RequestException\<close>; \<open>ValidationError\<close> is what the a2a library's models raise for a
  field of the wrong type.
\<close>

datatype exn_class =
    Exception
  | ValueError
  | TypeError
  | AttributeError
  | KeyError
  | IndexError
  | RequestException
  | HTTPError
  | ConnectionError
  | JSONDecodeError
  | ValidationError

datatype exn = Exn exn_class string

fun str :: "exn \<Rightarrow> string" where
  "str (Exn c m) = m"

fun is_RequestException :: "exn_class \<Rightarrow> bool" where
  "is_RequestException RequestException = True"
| "is_RequestException HTTPError = True"
| "is_RequestException ConnectionError = True"
| "is_RequestException JSONDecodeError = True"
| "is_RequestException c = False"

fun type_name :: "json \<Rightarrow> string" where
  "type_name JNull = ''NoneType''"
| "type_name (JBool b) = ''bool''"
| "type_name (JInt i) = ''int''"
| "type_name (JFloat f) = ''float''"
| "type_name (JStr s) = ''str''"
| "type_name (JArr xs) = ''list''"
| "type_name (JObj kvs) = ''dict''"

text \<open>A name between single quotes, as Python's messages print it.\<close>

definition quoted :: "string \<Rightarrow> string" where
  "quoted s = CHR 0x27 # s @ [CHR 0x27]"

text \<open>Python's truth value of an object, as \<^verbatim>\<open>if x\<close> and \<^verbatim>\<open>x and y\<close> test it.\<close>

fun truthy :: "json \<Rightarrow> bool" where
  "truthy JNull = False"
| "truthy (JBool b) = b"
| "truthy (JInt i) = (i \<noteq> 0)"
| "truthy (JFloat f) = (f \<noteq> Finite 0)"
| "truthy (JStr s) = (s \<noteq> [])"
| "truthy (JArr xs) = (xs \<noteq> [])"
| "truthy (JObj kvs) = (kvs \<noteq> [])"

text \<open>\<^verbatim>\<open>x.get(k, d)\<close>: only a dictionary has the method.\<close>

fun py_get :: "json \<Rightarrow> string \<Rightarrow> json \<Rightarrow> exn + json" where
  "py_get (JObj kvs) k d = Inr (case map_of kvs k of None \<Rightarrow> d | Some v \<Rightarrow> v)"
| "py_get v k d =
     Inl (Exn AttributeError (quoted (type_name v) @ '' object has no attribute '' @ quoted ''get''))"

text \<open>\<^verbatim>\<open>len(x)\<close>: defined on strings, lists and dictionaries.\<close>

fun py_len :: "json \<Rightarrow> exn + nat" where
  "py_len (JStr s) = Inr (length s)"
| "py_len (JArr xs) = Inr (length xs)"
| "py_len (JObj kvs) = Inr (length (remdups (map fst kvs)))"
| "py_len v = Inl (Exn TypeError (''object of type '' @ quoted (type_name v) @ '' has no len()''))"

text \<open>\<^verbatim>\<open>x[0]\<close>: the first element of a list, the first character of a string; a
  dictionary read from JSON has string keys only, so the key \<open>0\<close> is never there.\<close>

fun py_index0 :: "json \<Rightarrow> exn + json" where
  "py_index0 (JArr (x # xs)) = Inr x"
| "py_index0 (JArr []) = Inl (Exn IndexError ''list index out of range'')"
| "py_index0 (JStr (c # cs)) = Inr (JStr [c])"
| "py_index0 (JStr []) = Inl (Exn IndexError ''string index out of range'')"
| "py_index0 (JObj kvs) = Inl (Exn KeyError ''0'')"
| "py_index0 v = Inl (Exn TypeError (quoted (type_name v) @ '' object is not subscriptable''))"

text \<open>Sequencing of steps that may raise: the first exception ends the block.\<close>

fun bind_exn :: "exn + 'a \<Rightarrow> ('a \<Rightarrow> exn + 'b) \<Rightarrow> exn + 'b" where
  "bind_exn (Inl e) f = Inl e"
| "bind_exn (Inr x) f = f x"

section \<open>Response extractor\<close>

definition no_message_text :: string where
  "no_message_text = ''No message text found in response''"

text \<open>\<^verbatim>\<open>x and len(x) > 0\<close>: \<open>len\<close> is evaluated only when \<open>x\<close> is true.\<close>

definition nonempty :: "json \<Rightarrow> exn + bool" where
  "nonempty x = (if truthy x then bind_exn (py_len x) (\<lambda>n. Inr (n > 0)) else Inr False)"

text \<open>The body of the \<^verbatim>\<open>try\<close> block of \<open>_extract_message_text\<close>. The value returned
  is the \<open>text\<close> entry itself, whatever its type.\<close>

definition extract_try :: "json \<Rightarrow> exn + json" where
  "extract_try response =
     bind_exn (py_get response ''outputs'' (JArr [])) (\<lambda>outputs.
     bind_exn (nonempty outputs) (\<lambda>b1.
       if b1 then
         bind_exn (py_index0 outputs) (\<lambda>first_output.
         bind_exn (py_get first_output ''outputs'' (JArr [])) (\<lambda>results.
         bind_exn (nonempty results) (\<lambda>b2.
           if b2 then
             bind_exn (py_index0 results) (\<lambda>first_result.
             bind_exn (py_get first_result ''results'' (JObj [])) (\<lambda>r.
             bind_exn (py_get r ''message'' (JObj [])) (\<lambda>message_data.
             bind_exn (py_get message_data ''text'' (JStr [])) (\<lambda>text.
               if truthy text then Inr text else Inr (JStr no_message_text)))))
           else Inr (JStr no_message_text))))
       else Inr (JStr no_message_text)))"

text \<open>\<open>_extract_message_text\<close>: the \<^verbatim>\<open>except Exception\<close> clause turns every exception
  of the block into a string that embeds \<^verbatim>\<open>str(e)\<close>.\<close>

definition extract_message_text :: "json \<Rightarrow> json" where
  "extract_message_text response =
     (case extract_try response of
        Inr v \<Rightarrow> v
      | Inl e \<Rightarrow> JStr (''Error extracting response: '' @ str e))"

section \<open>Protocol types\<close>

text \<open>
  The classes of the a2a library the executor builds and reads, with the fields it uses.
  The identifiers the library draws at random (\<open>messageId\<close>, \<open>artifactId\<close>) are left
  out. Two library calls can raise and are modelled with that branch: \<open>new_task\<close>, which
  checks the message and draws the identifiers of a new task, is a parameter of the
  environment; \<open>new_text_artifact\<close> is given a text that must be a string.
  Fields are prefixed by their class: \<open>msg_\<close>, \<open>task_\<close>, \<open>ts_\<close>, \<open>su_\<close>, \<open>art_\<close>, \<open>au_\<close>.
\<close>

datatype Role = user | agent

datatype TaskState =
    submitted | working | input_required | completed | canceled | failed
  | rejected | auth_required | unknown

record Message =
  msg_role :: Role
  msg_text :: string
  msg_contextId :: "string option"
  msg_taskId :: "string option"

record Task =
  task_id :: string
  task_contextId :: string
  task_state :: TaskState
  task_history :: "Message list"

record TaskStatus =
  ts_state :: TaskState
  ts_message :: "Message option"

record TaskStatusUpdateEvent =
  su_status :: TaskStatus
  su_final :: bool
  su_contextId :: string
  su_taskId :: string

record Artifact =
  art_name :: string
  art_description :: string
  art_text :: string

record TaskArtifactUpdateEvent =
  au_artifact :: Artifact
  au_contextId :: string
  au_taskId :: string

datatype Event =
    TaskEvent Task
  | StatusUpdate TaskStatusUpdateEvent
  | ArtifactUpdate TaskArtifactUpdateEvent

definition new_agent_text_message :: "string \<Rightarrow> string \<Rightarrow> string \<Rightarrow> Message" where
  "new_agent_text_message t cid tid =
     \<lparr>msg_role = agent, msg_text = t, msg_contextId = Some cid, msg_taskId = Some tid\<rparr>"

text \<open>The request context: the inbound message, the task the request belongs to when
  there is one, and the text \<^verbatim>\<open>get_user_input()\<close> returns.\<close>

record RequestContext =
  ctx_message :: "Message option"
  current_task :: "Task option"
  user_input :: string

section \<open>HTTP\<close>

text \<open>What \<^verbatim>\<open>requests.post(url, json=, headers=, params=)\<close> is given, and what the code
  reads of the response: the status (with the reason and the URL that the error message
  of \<^verbatim>\<open>raise_for_status\<close> prints) and the outcome of \<^verbatim>\<open>response.json()\<close>.\<close>

record Request =
  req_url :: string
  req_json :: "(string \<times> string) list"
  req_headers :: "(string \<times> string) list"
  req_params :: "(string \<times> string) list"

record Response =
  status_code :: nat
  reason :: string
  resp_url :: string
  resp_json :: "exn + json"

fun show_nat :: "nat \<Rightarrow> string" where
  "show_nat n =
     (if n < 10 then [''0123456789'' ! n]
      else show_nat (n div 10) @ [''0123456789'' ! (n mod 10)])"

declare show_nat.simps [simp del]

text \<open>\<^verbatim>\<open>Response.raise_for_status()\<close> of the requests library: an \<open>HTTPError\<close> for a
  status from 400 to 599, nothing otherwise.\<close>

definition raise_for_status :: "Response \<Rightarrow> exn + unit" where
  "raise_for_status r =
     (if 400 \<le> status_code r \<and> status_code r < 500 then
        Inl (Exn HTTPError (show_nat (status_code r) @ '' Client Error: '' @ reason r
                              @ '' for url: '' @ resp_url r))
      else if 500 \<le> status_code r \<and> status_code r < 600 then
        Inl (Exn HTTPError (show_nat (status_code r) @ '' Server Error: '' @ reason r
                              @ '' for url: '' @ resp_url r))
      else Inr ())"

section \<open>The executor\<close>

record config =
  langflow_url :: string
  api_key :: "string option"

text \<open>\<^verbatim>\<open>str.rstrip(c)\<close> for a single character.\<close>

definition rstrip :: "char \<Rightarrow> string \<Rightarrow> string" where
  "rstrip c s = rev (dropWhile (\<lambda>x. x = c) (rev s))"

text \<open>\<open>LangflowAgentExecutor.__init__\<close>.\<close>

definition init :: "string \<Rightarrow> string option \<Rightarrow> exn + config" where
  "init url key =
     (if url = [] then Inl (Exn ValueError ''langflow_url is required'')
      else Inr \<lparr>langflow_url = rstrip (CHR ''/'') url, api_key = key\<rparr>)"

text \<open>The environment: the remote engine as seen through \<^verbatim>\<open>requests.post\<close> (a response,
  or the exception the call raises); the library's \<open>new_task\<close>, which returns a task or
  raises (it rejects some messages); and the exception the library raises when the text
  of an artifact is not a string. The world: the event queue, in publication order, and
  the POST requests issued so far. \<^verbatim>\<open>enqueue_event\<close> appends to the queue. The log calls,
  which change nothing, are left out.\<close>

record env =
  http_post :: "Request \<Rightarrow> exn + Response"
  new_task :: "Message \<Rightarrow> exn + Task"
  text_validation_error :: "json \<Rightarrow> exn"

record world =
  queue :: "Event list"
  posts :: "Request list"

definition enqueue_event :: "Event \<Rightarrow> world \<Rightarrow> world" where
  "enqueue_event e w = w\<lparr>queue := queue w @ [e]\<rparr>"

text \<open>\<open>new_text_artifact\<close>: an artifact with one text part; the text part takes a string
  and nothing else.\<close>

definition new_text_artifact :: "env \<Rightarrow> string \<Rightarrow> string \<Rightarrow> json \<Rightarrow> exn + Artifact" where
  "new_text_artifact ev name description t =
     (case t of
        JStr s \<Rightarrow> Inr \<lparr>art_name = name, art_description = description, art_text = s\<rparr>
      | _ \<Rightarrow> Inl (text_validation_error ev t))"

text \<open>The request \<open>_call_langflow\<close> builds.\<close>

definition build_request :: "config \<Rightarrow> string \<Rightarrow> string option \<Rightarrow> Request" where
  "build_request cfg input_value session_id =
     \<lparr>req_url = langflow_url cfg,
      req_json = [(''input_value'', input_value), (''output_type'', ''chat''),
                  (''input_type'', ''chat'')],
      req_headers = (''Content-Type'', ''application/json'') #
         (case api_key cfg of
            None \<Rightarrow> []
          | Some k \<Rightarrow> if k \<noteq> [] then [(''Authorization'', ''Bearer '' @ k)] else []),
      req_params =
         (case session_id of
            None \<Rightarrow> []
          | Some sid \<Rightarrow> if sid \<noteq> [] then [(''session_id'', sid)] else [])\<rparr>"

text \<open>\<open>_call_langflow\<close>: one POST, then \<open>raise_for_status\<close>, then the JSON body. Both
  \<^verbatim>\<open>except\<close> clauses log and raise again, so an exception leaves as it came.\<close>

definition call_langflow ::
  "env \<Rightarrow> config \<Rightarrow> string \<Rightarrow> string option \<Rightarrow> world \<Rightarrow> (exn + json) \<times> world" where
  "call_langflow ev cfg input_value session_id w =
     (let rq = build_request cfg input_value session_id in
      (bind_exn (http_post ev rq) (\<lambda>response.
         bind_exn (raise_for_status response) (\<lambda>u. resp_json response)),
       w\<lparr>posts := posts w @ [rq]\<rparr>))"

definition working_event :: "Task \<Rightarrow> Event" where
  "working_event task = StatusUpdate
     \<lparr>su_status = \<lparr>ts_state = working,
                   ts_message = Some (new_agent_text_message
                      ''Processing your request with Langflow...''
                      (task_contextId task) (task_id task))\<rparr>,
      su_final = False, su_contextId = task_contextId task, su_taskId = task_id task\<rparr>"

definition artifact_event :: "Task \<Rightarrow> Artifact \<Rightarrow> Event" where
  "artifact_event task a = ArtifactUpdate
     \<lparr>au_artifact = a, au_contextId = task_contextId task, au_taskId = task_id task\<rparr>"

definition completed_event :: "Task \<Rightarrow> Event" where
  "completed_event task = StatusUpdate
     \<lparr>su_status = \<lparr>ts_state = completed, ts_message = None\<rparr>,
      su_final = True, su_contextId = task_contextId task, su_taskId = task_id task\<rparr>"

definition failed_event :: "Task \<Rightarrow> exn \<Rightarrow> Event" where
  "failed_event task e = StatusUpdate
     \<lparr>su_status = \<lparr>ts_state = failed,
                   ts_message = Some (new_agent_text_message
                      (''Error processing request: '' @ str e)
                      (task_contextId task) (task_id task))\<rparr>,
      su_final = True, su_contextId = task_contextId task, su_taskId = task_id task\<rparr>"

text \<open>The \<^verbatim>\<open>try\<close> block of \<open>execute\<close>: the call and the construction of the artifact can
  raise; what was published before stays published.\<close>

definition execute_try ::
  "env \<Rightarrow> config \<Rightarrow> string \<Rightarrow> Task \<Rightarrow> world \<Rightarrow> (exn + unit) \<times> world" where
  "execute_try ev cfg query task w =
     (let w1 = enqueue_event (working_event task) w in
      case call_langflow ev cfg query (Some (task_contextId task)) w1 of
        (Inl e, w2) \<Rightarrow> (Inl e, w2)
      | (Inr response, w2) \<Rightarrow>
          (let response_text = extract_message_text response in
           case new_text_artifact ev ''Langflow Response''
                  (''Response from Langflow for query: '' @ query) response_text of
             Inl e \<Rightarrow> (Inl e, w2)
           | Inr a \<Rightarrow>
               (let w3 = enqueue_event (artifact_event task a) w2;
                    w4 = enqueue_event (completed_event task) w3
                in (Inr (), w4))))"

text \<open>\<open>execute\<close>: the check of the message and the creation of the task come before
  the \<^verbatim>\<open>try\<close>, so what they raise leaves \<open>execute\<close>; the \<^verbatim>\<open>except Exception\<close> clause
  publishes the failed status for what the \<^verbatim>\<open>try\<close> block raises.\<close>

definition execute :: "env \<Rightarrow> config \<Rightarrow> RequestContext \<Rightarrow> world \<Rightarrow> (exn + unit) \<times> world" where
  "execute ev cfg context w =
     (let query = user_input context in
      case ctx_message context of
        None \<Rightarrow> (Inl (Exn Exception ''No message in context''), w)
      | Some m \<Rightarrow>
          (case (case current_task context of
                   None \<Rightarrow> bind_exn (new_task ev m)
                             (\<lambda>t. Inr (t, enqueue_event (TaskEvent t) w))
                 | Some t \<Rightarrow> Inr (t, w)) of
             Inl e \<Rightarrow> (Inl e, w)
           | Inr (task, w0) \<Rightarrow>
               (case execute_try ev cfg query task w0 of
                  (Inl e, w1) \<Rightarrow> (Inr (), enqueue_event (failed_event task e) w1)
                | (Inr u, w1) \<Rightarrow> (Inr u, w1))))"

text \<open>\<open>cancel\<close>.\<close>

definition cancel :: "RequestContext \<Rightarrow> world \<Rightarrow> (exn + unit) \<times> world" where
  "cancel context w = (Inl (Exn Exception ''Cancel not supported for Langflow agent''), w)"

text \<open>Reading events: the \<open>final\<close> flag (only a status update has one), the kind of
  a final event, and the identifiers an event carries.\<close>

fun is_final :: "Event \<Rightarrow> bool" where
  "is_final (StatusUpdate s) = su_final s"
| "is_final e = False"

fun is_terminal_status :: "Event \<Rightarrow> bool" where
  "is_terminal_status (StatusUpdate s) =
     (su_final s \<and> (ts_state (su_status s) = completed \<or> ts_state (su_status s) = failed))"
| "is_terminal_status e = False"

fun event_ids :: "Event \<Rightarrow> string \<times> string" where
  "event_ids (TaskEvent t) = (task_id t, task_contextId t)"
| "event_ids (StatusUpdate s) = (su_taskId s, su_contextId s)"
| "event_ids (ArtifactUpdate a) = (au_taskId a, au_contextId a)"

text \<open>The task an execution works on: the current one, or what \<open>new_task\<close> gives. The
  events published before the \<^verbatim>\<open>try\<close>: the new task, when one was made. The artifact
  built of a query and a text.\<close>

definition task_of :: "env \<Rightarrow> RequestContext \<Rightarrow> Message \<Rightarrow> exn + Task" where
  "task_of ev context m =
     (case current_task context of None \<Rightarrow> new_task ev m | Some t \<Rightarrow> Inr t)"

definition task_prefix :: "RequestContext \<Rightarrow> Task \<Rightarrow> Event list" where
  "task_prefix context t = (case current_task context of None \<Rightarrow> [TaskEvent t] | Some t' \<Rightarrow> [])"

definition response_artifact :: "string \<Rightarrow> string \<Rightarrow> Artifact" where
  "response_artifact query s =
     \<lparr>art_name = ''Langflow Response'',
      art_description = ''Response from Langflow for query: '' @ query, art_text = s\<rparr>"

fun event_state :: "Event \<Rightarrow> TaskState option" where
  "event_state (StatusUpdate s) = Some (ts_state (su_status s))"
| "event_state e = None"

fun artifact_text :: "Event \<Rightarrow> string option" where
  "artifact_text (ArtifactUpdate a) = Some (art_text (au_artifact a))"
| "artifact_text e = None"

fun status_text :: "Event \<Rightarrow> string option" where
  "status_text (StatusUpdate s) = map_option msg_text (ts_message (su_status s))"
| "status_text e = None"

fun is_artifact :: "Event \<Rightarrow> bool" where
  "is_artifact (ArtifactUpdate a) = True"
| "is_artifact e = False"

section \<open>Concrete inputs\<close>

text \<open>A request with and without a current task, one without a message and one whose
  message has an empty text; a \<open>new_task\<close> that rejects an empty text, as the library's
  does; a remote engine that answers 200 with the reply \<open>8\<close>, one that answers 200 with
  the number 5 for text, one that answers 500 and one that answers 300 with a JSON body; a
  configuration, and the one \<open>__init__\<close> makes of \<open>http://h/\<close>.\<close>

definition example_message :: Message where
  "example_message = \<lparr>msg_role = user, msg_text = ''Calculate 4*4*(33/22)+12-20'',
     msg_contextId = None, msg_taskId = None\<rparr>"

definition example_task :: Task where
  "example_task = \<lparr>task_id = ''task-1'', task_contextId = ''ctx-1'', task_state = submitted,
     task_history = [example_message]\<rparr>"

definition reply_8 :: json where
  "reply_8 = JObj [(''outputs'', JArr [JObj [(''outputs'', JArr [JObj [(''results'',
      JObj [(''message'', JObj [(''text'', JStr ''8'')])])]])]])]"

definition respond :: "nat \<Rightarrow> string \<Rightarrow> exn + json \<Rightarrow> Request \<Rightarrow> exn + Response" where
  "respond code why body rq =
     Inr \<lparr>status_code = code, reason = why, resp_url = req_url rq, resp_json = body\<rparr>"

definition reply_5 :: json where
  "reply_5 = JObj [(''outputs'', JArr [JObj [(''outputs'', JArr [JObj [(''results'',
      JObj [(''message'', JObj [(''text'', JInt 5)])])]])]])]"

definition fresh_task :: "Message \<Rightarrow> Task" where
  "fresh_task m = \<lparr>task_id = ''task-2'', task_contextId = ''ctx-2'', task_state = submitted,
     task_history = [m]\<rparr>"

definition checked_new_task :: "Message \<Rightarrow> exn + Task" where
  "checked_new_task m =
     (if msg_text m = [] then Inl (Exn ValueError ''TextPart content cannot be empty'')
      else Inr (fresh_task m))"

definition not_a_string :: "json \<Rightarrow> exn" where
  "not_a_string t = Exn ValidationError ''Input should be a valid string''"

definition env_ok :: env where
  "env_ok = \<lparr>http_post = respond 200 ''OK'' (Inr reply_8), new_task = checked_new_task,
     text_validation_error = not_a_string\<rparr>"

definition env_5 :: env where
  "env_5 = \<lparr>http_post = respond 200 ''OK'' (Inr reply_5), new_task = checked_new_task,
     text_validation_error = not_a_string\<rparr>"

definition env_500 :: env where
  "env_500 = \<lparr>http_post = respond 500 ''Internal Server Error'' (Inr (JObj [])),
     new_task = checked_new_task, text_validation_error = not_a_string\<rparr>"

definition env_300 :: env where
  "env_300 = \<lparr>http_post = respond 300 ''Multiple Choices'' (Inr (JObj [])),
     new_task = checked_new_task, text_validation_error = not_a_string\<rparr>"

definition example_config :: config where
  "example_config = \<lparr>langflow_url = ''http://h/api'', api_key = None\<rparr>"

definition context_with_task :: RequestContext where
  "context_with_task = \<lparr>ctx_message = Some example_message, current_task = Some example_task,
     user_input = ''Calculate 4*4*(33/22)+12-20''\<rparr>"

definition context_new :: RequestContext where
  "context_new = \<lparr>ctx_message = Some example_message, current_task = None,
     user_input = ''Calculate 4*4*(33/22)+12-20''\<rparr>"

definition context_no_message :: RequestContext where
  "context_no_message = \<lparr>ctx_message = None, current_task = None, user_input = []\<rparr>"

definition empty_message :: Message where
  "empty_message = \<lparr>msg_role = user, msg_text = [], msg_contextId = None, msg_taskId = None\<rparr>"

definition context_empty_text :: RequestContext where
  "context_empty_text = \<lparr>ctx_message = Some empty_message, current_task = None,
     user_input = []\<rparr>"

definition world0 :: world where
  "world0 = \<lparr>queue = [], posts = []\<rparr>"

definition stripped_config :: config where
  "stripped_config = \<lparr>langflow_url = ''http://h'', api_key = None\<rparr>"

section \<open>Properties of the extractor\<close>

lemma nonempty_cons: "nonempty (JArr (x # xs)) = Inr True"
  by (simp add: nonempty_def)

lemma nonempty_nil: "nonempty (JArr []) = Inr False"
  by (simp add: nonempty_def)

text \<open>
  \<^bold>\<open>C5.\<close> When the response is a dictionary whose \<open>outputs\<close> is a list with a dictionary
  first, whose own \<open>outputs\<close> is a list with a dictionary first, and
  \<open>results.message.text\<close> of that one is a non-empty string \<open>S\<close>, then
  \<open>_extract_message_text\<close> returns exactly \<open>S\<close>.
\<close>

theorem extract_returns_text:
  assumes "map_of r ''outputs'' = Some (JArr (JObj o1 # os))"
    and "map_of o1 ''outputs'' = Some (JArr (JObj o2 # rs))"
    and "map_of o2 ''results'' = Some (JObj res)"
    and "map_of res ''message'' = Some (JObj msg)"
    and "map_of msg ''text'' = Some (JStr S)"
    and "S \<noteq> []"
  shows "extract_message_text (JObj r) = JStr S"
  using assms
  by (simp add: extract_message_text_def extract_try_def nonempty_cons)

theorem extract_returns_text_witness:
  "extract_message_text reply_8 = JStr ''8''"
proof -
  have "extract_message_text
          (JObj [(''outputs'', JArr [JObj [(''outputs'', JArr [JObj [(''results'',
             JObj [(''message'', JObj [(''text'', JStr ''8'')])])]])]])]) = JStr ''8''"
    by (rule extract_returns_text
          [where ?o1.0 = "[(''outputs'', JArr [JObj [(''results'',
                   JObj [(''message'', JObj [(''text'', JStr ''8'')])])]])]"
             and os = "[]"
             and ?o2.0 = "[(''results'', JObj [(''message'', JObj [(''text'', JStr ''8'')])])]"
             and rs = "[]"
             and res = "[(''message'', JObj [(''text'', JStr ''8'')])]"
             and msg = "[(''text'', JStr ''8'')]"]) simp_all
  then show ?thesis
    by (simp only: reply_8_def)
qed

text \<open>
  \<^bold>\<open>C6.\<close> \<open>_extract_message_text\<close> returns a value on every input. It returns the fixed
  text \<open>No message text found in response\<close> when \<open>outputs\<close> is absent or an empty list,
  when \<open>outputs[0].outputs\<close> is absent or an empty list, and when \<open>results\<close>, \<open>message\<close>
  or \<open>text\<close> is absent at the leaf or \<open>text\<close> is the empty string. When the navigation
  raises an exception \<open>e\<close>, it returns \<open>Error extracting response: \<close> followed by
  \<^verbatim>\<open>str(e)\<close>; when the navigation ends without one, it returns the value reached. No
  exception leaves the function.
\<close>

theorem extract_total_fallback:
  "(map_of r1 ''outputs'' = None \<or> map_of r1 ''outputs'' = Some (JArr [])
      \<longrightarrow> extract_message_text (JObj r1) = JStr no_message_text)
   \<and> (map_of r2 ''outputs'' = Some (JArr (JObj g2 # os2))
        \<and> (map_of g2 ''outputs'' = None \<or> map_of g2 ''outputs'' = Some (JArr []))
      \<longrightarrow> extract_message_text (JObj r2) = JStr no_message_text)
   \<and> (map_of r3 ''outputs'' = Some (JArr (JObj g3 # os3))
        \<and> map_of g3 ''outputs'' = Some (JArr (JObj f3 # rs3))
        \<and> (map_of f3 ''results'' = None
            \<or> map_of f3 ''results'' = Some (JObj res3)
               \<and> (map_of res3 ''message'' = None
                   \<or> map_of res3 ''message'' = Some (JObj msg3)
                      \<and> (map_of msg3 ''text'' = None \<or> map_of msg3 ''text'' = Some (JStr []))))
      \<longrightarrow> extract_message_text (JObj r3) = JStr no_message_text)
   \<and> (extract_try x = Inl e
      \<longrightarrow> extract_message_text x = JStr (''Error extracting response: '' @ str e))
   \<and> (extract_try y = Inr v \<longrightarrow> extract_message_text y = v)"
  by (auto simp add: extract_message_text_def extract_try_def nonempty_cons nonempty_nil)

theorem extract_total_fallback_witness:
  "extract_message_text (JObj [(''outputs'', JArr [])]) = JStr no_message_text
   \<and> extract_message_text (JObj [(''outputs'', JArr [JObj []])]) = JStr no_message_text
   \<and> extract_message_text (JObj [(''outputs'', JArr [JObj [(''outputs'',
         JArr [JObj [(''results'', JObj [(''message'', JObj [(''text'', JStr [])])])]])]])])
       = JStr no_message_text
   \<and> extract_message_text (JArr [])
       = JStr (''Error extracting response: '' @ quoted ''list''
                 @ '' object has no attribute '' @ quoted ''get'')
   \<and> extract_message_text (JObj []) = JStr no_message_text"
proof -
  have y: "extract_try (JObj []) = Inr (JStr no_message_text)"
    by (simp add: extract_try_def nonempty_nil)
  have x: "extract_try (JArr []) =
             Inl (Exn AttributeError (quoted ''list'' @ '' object has no attribute '' @ quoted ''get''))"
    by (simp add: extract_try_def)
  show ?thesis
    using extract_total_fallback
      [where ?r1.0 = "[(''outputs'', JArr [])]"
         and ?r2.0 = "[(''outputs'', JArr [JObj []])]" and ?g2.0 = "[]" and ?os2.0 = "[]"
         and ?r3.0 = "[(''outputs'', JArr [JObj [(''outputs'',
               JArr [JObj [(''results'', JObj [(''message'', JObj [(''text'', JStr [])])])]])]])]"
         and ?g3.0 = "[(''outputs'',
               JArr [JObj [(''results'', JObj [(''message'', JObj [(''text'', JStr [])])])]])]"
         and ?os3.0 = "[]"
         and ?f3.0 = "[(''results'', JObj [(''message'', JObj [(''text'', JStr [])])])]"
         and ?rs3.0 = "[]"
         and ?res3.0 = "[(''message'', JObj [(''text'', JStr [])])]"
         and ?msg3.0 = "[(''text'', JStr [])]"
         and x = "JArr []"
         and e = "Exn AttributeError (quoted ''list'' @ '' object has no attribute '' @ quoted ''get'')"
         and y = "JObj []" and v = "JStr no_message_text"]
      x y
    by simp
qed

section \<open>Properties of the executor\<close>

text \<open>
  \<^bold>\<open>C9.\<close> Every call of \<open>cancel\<close> raises the exception
  \<open>Cancel not supported for Langflow agent\<close> and leaves the event queue as it was,
  whatever the request context and the queue are.
\<close>

theorem cancel_raises_no_event:
  "fst (cancel ctx w) = Inl (Exn Exception ''Cancel not supported for Langflow agent'')
   \<and> snd (cancel ctx w) = w
   \<and> queue (snd (cancel ctx w)) = queue w"
  by (simp add: cancel_def)

text \<open>The result of \<open>_call_langflow\<close> does not depend on the world; its effect on the
  world is one more POST.\<close>

lemma call_langflow_fst:
  "fst (call_langflow ev cfg q s w) =
     bind_exn (http_post ev (build_request cfg q s)) (\<lambda>response.
       bind_exn (raise_for_status response) (\<lambda>u. resp_json response))"
  by (simp add: call_langflow_def Let_def)

lemma call_langflow_snd:
  "snd (call_langflow ev cfg q s w) = w\<lparr>posts := posts w @ [build_request cfg q s]\<rparr>"
  by (simp add: call_langflow_def Let_def)

lemma call_langflow_eq:
  assumes "fst (call_langflow ev cfg q s w0) = r"
  shows "call_langflow ev cfg q s w = (r, w\<lparr>posts := posts w @ [build_request cfg q s]\<rparr>)"
  using assms by (simp add: call_langflow_def Let_def)

lemma call_cases:
  obtains (ok) response where "fst (call_langflow ev cfg q s w) = Inr response"
  | (err) e where "fst (call_langflow ev cfg q s w) = Inl e"
  by (cases "fst (call_langflow ev cfg q s w)") auto

lemma new_text_artifact_other:
  "\<forall>s. x \<noteq> JStr s \<Longrightarrow> new_text_artifact ev n d x = Inl (text_validation_error ev x)"
  by (cases x) (simp_all add: new_text_artifact_def)

lemma new_text_artifact_cases:
  obtains (str) s where "x = JStr s"
  | (other) "\<forall>s. x \<noteq> JStr s"
  by (cases x) auto

text \<open>The three ways through the \<^verbatim>\<open>try\<close> block.\<close>

lemma execute_try_ok:
  assumes "fst (call_langflow ev cfg q (Some (task_contextId t)) w0) = Inr response"
    and "extract_message_text response = JStr s"
  shows "execute_try ev cfg q t w =
     (Inr (), w\<lparr>queue := queue w @ [working_event t, artifact_event t (response_artifact q s),
                                      completed_event t],
               posts := posts w @ [build_request cfg q (Some (task_contextId t))]\<rparr>)"
  by (simp add: execute_try_def Let_def enqueue_event_def new_text_artifact_def
      response_artifact_def call_langflow_eq[OF assms(1)] assms(2))

lemma execute_try_bad_text:
  assumes "fst (call_langflow ev cfg q (Some (task_contextId t)) w0) = Inr response"
    and "\<forall>s. extract_message_text response \<noteq> JStr s"
  shows "execute_try ev cfg q t w =
     (Inl (text_validation_error ev (extract_message_text response)),
      w\<lparr>queue := queue w @ [working_event t],
        posts := posts w @ [build_request cfg q (Some (task_contextId t))]\<rparr>)"
  by (simp add: execute_try_def Let_def enqueue_event_def call_langflow_eq[OF assms(1)]
      new_text_artifact_other[OF assms(2)])

lemma execute_try_err:
  assumes "fst (call_langflow ev cfg q (Some (task_contextId t)) w0) = Inl e"
  shows "execute_try ev cfg q t w =
     (Inl e, w\<lparr>queue := queue w @ [working_event t],
               posts := posts w @ [build_request cfg q (Some (task_contextId t))]\<rparr>)"
  by (simp add: execute_try_def Let_def enqueue_event_def call_langflow_eq[OF assms])

text \<open>\<open>execute\<close> once the message and the task are there, and when \<open>new_task\<close> raises.\<close>

lemma execute_with_task:
  assumes "ctx_message ctx = Some m" and "task_of ev ctx m = Inr t"
  shows "execute ev cfg ctx w =
     (case execute_try ev cfg (user_input ctx) t (w\<lparr>queue := queue w @ task_prefix ctx t\<rparr>) of
        (Inl e, w1) \<Rightarrow> (Inr (), enqueue_event (failed_event t e) w1)
      | (Inr u, w1) \<Rightarrow> (Inr u, w1))"
  using assms
  by (cases "current_task ctx")
     (simp_all add: execute_def Let_def task_of_def task_prefix_def enqueue_event_def)

lemma execute_no_task:
  assumes "ctx_message ctx = Some m" and "task_of ev ctx m = Inl e"
  shows "execute ev cfg ctx w = (Inl e, w)"
  using assms
  by (cases "current_task ctx") (simp_all add: execute_def Let_def task_of_def)

lemma execute_ok:
  assumes "ctx_message ctx = Some m" and "task_of ev ctx m = Inr t"
    and "fst (call_langflow ev cfg (user_input ctx) (Some (task_contextId t)) w0) = Inr response"
    and "extract_message_text response = JStr s"
  shows "execute ev cfg ctx w =
     (Inr (), w\<lparr>queue := queue w @ task_prefix ctx t @
                   [working_event t, artifact_event t (response_artifact (user_input ctx) s),
                    completed_event t],
               posts := posts w @ [build_request cfg (user_input ctx)
                                     (Some (task_contextId t))]\<rparr>)"
  by (simp add: execute_with_task[OF assms(1,2)] execute_try_ok[OF assms(3,4)])

lemma execute_bad_text:
  assumes "ctx_message ctx = Some m" and "task_of ev ctx m = Inr t"
    and "fst (call_langflow ev cfg (user_input ctx) (Some (task_contextId t)) w0) = Inr response"
    and "\<forall>s. extract_message_text response \<noteq> JStr s"
  shows "execute ev cfg ctx w =
     (Inr (), w\<lparr>queue := queue w @ task_prefix ctx t @
                   [working_event t,
                    failed_event t (text_validation_error ev (extract_message_text response))],
               posts := posts w @ [build_request cfg (user_input ctx)
                                     (Some (task_contextId t))]\<rparr>)"
  by (simp add: execute_with_task[OF assms(1,2)] execute_try_bad_text[OF assms(3,4)]
      enqueue_event_def)

lemma execute_err:
  assumes "ctx_message ctx = Some m" and "task_of ev ctx m = Inr t"
    and "fst (call_langflow ev cfg (user_input ctx) (Some (task_contextId t)) w0) = Inl e"
  shows "execute ev cfg ctx w =
     (Inr (), w\<lparr>queue := queue w @ task_prefix ctx t @ [working_event t, failed_event t e],
               posts := posts w @ [build_request cfg (user_input ctx)
                                     (Some (task_contextId t))]\<rparr>)"
  by (simp add: execute_with_task[OF assms(1,2)] execute_try_err[OF assms(3)] enqueue_event_def)

lemma show_nat_500: "show_nat 500 = ''500''"
  by (simp add: show_nat.simps)

lemma event_reads:
  "is_final (working_event t) = False" "is_final (completed_event t) = True"
  "is_final (failed_event t e) = True" "is_final (artifact_event t a) = False"
  "is_terminal_status (completed_event t)" "is_terminal_status (failed_event t e)"
  "event_state (working_event t) = Some working"
  "event_state (completed_event t) = Some completed"
  "event_state (failed_event t e) = Some failed"
  "event_state (artifact_event t a) = None"
  "artifact_text (artifact_event t (response_artifact q s)) = Some s"
  "status_text (failed_event t e) = Some (''Error processing request: '' @ str e)"
  "is_artifact (working_event t) = False" "is_artifact (failed_event t e) = False"
  "is_artifact (completed_event t) = False"
  "event_ids (working_event t) = (task_id t, task_contextId t)"
  "event_ids (completed_event t) = (task_id t, task_contextId t)"
  "event_ids (failed_event t e) = (task_id t, task_contextId t)"
  "event_ids (artifact_event t a) = (task_id t, task_contextId t)"
  by (simp_all add: working_event_def completed_event_def failed_event_def artifact_event_def
      new_agent_text_message_def response_artifact_def)

lemma task_prefix_reads:
  "filter is_final (task_prefix ctx t) = []"
  "filter is_artifact (task_prefix ctx t) = []"
  "\<forall>x\<in>set (task_prefix ctx t). event_ids x = (task_id t, task_contextId t)"
  "\<forall>x\<in>set (task_prefix ctx t). \<not> is_final x"
  by (simp_all add: task_prefix_def split: option.splits)

text \<open>The outcomes of an execution that has its task: the queue grows by the task
  prefix, the working event and then either the artifact and the completed event or the
  failed event; one POST is added.\<close>

lemma execute_outcomes:
  assumes "ctx_message ctx = Some m" and "task_of ev ctx m = Inr t"
  shows "fst (execute ev cfg ctx w) = Inr ()
    \<and> posts (snd (execute ev cfg ctx w)) =
        posts w @ [build_request cfg (user_input ctx) (Some (task_contextId t))]
    \<and> ((\<exists>a. queue (snd (execute ev cfg ctx w)) =
              queue w @ task_prefix ctx t @ [working_event t, artifact_event t a, completed_event t])
       \<or> (\<exists>e. queue (snd (execute ev cfg ctx w)) =
              queue w @ task_prefix ctx t @ [working_event t, failed_event t e]))"
proof (cases rule: call_cases[of ev cfg "user_input ctx" "Some (task_contextId t)" w])
  case (ok response)
  show ?thesis
  proof (cases rule: new_text_artifact_cases[of "extract_message_text response"])
    case (str s)
    show ?thesis by (auto simp add: execute_ok[OF assms ok str])
  next
    case other
    show ?thesis by (auto simp add: execute_bad_text[OF assms ok other])
  qed
next
  case (err e)
  show ?thesis by (auto simp add: execute_err[OF assms err])
qed
lemma example_reads:
  "ctx_message context_with_task = Some example_message"
  "ctx_message context_new = Some example_message"
  "ctx_message context_no_message = None"
  "ctx_message context_empty_text = Some empty_message"
  "current_task context_with_task = Some example_task"
  "current_task context_new = None"
  "current_task context_empty_text = None"
  "user_input context_with_task = ''Calculate 4*4*(33/22)+12-20''"
  "user_input context_new = ''Calculate 4*4*(33/22)+12-20''"
  "queue world0 = []" "posts world0 = []"
  by (simp_all add: context_with_task_def context_new_def context_no_message_def
      context_empty_text_def world0_def)

lemma example_tasks:
  "task_of ev context_with_task example_message = Inr example_task"
  "task_of env_ok context_new example_message = Inr (fresh_task example_message)"
  "task_of env_500 context_new example_message = Inr (fresh_task example_message)"
  "task_of env_ok context_empty_text empty_message
     = Inl (Exn ValueError ''TextPart content cannot be empty'')"
  "task_prefix context_with_task t = []"
  "task_prefix context_new t = [TaskEvent t]"
  by (simp_all add: task_of_def task_prefix_def context_with_task_def context_new_def
      context_empty_text_def env_ok_def env_500_def checked_new_task_def example_message_def
      empty_message_def)

lemma example_calls:
  "fst (call_langflow env_ok example_config q s w) = Inr reply_8"
  "fst (call_langflow env_5 example_config q s w) = Inr reply_5"
  "fst (call_langflow env_500 example_config q s w)
     = Inl (Exn HTTPError ''500 Server Error: Internal Server Error for url: http://h/api'')"
  by (simp_all add: call_langflow_fst env_ok_def env_5_def env_500_def respond_def
      raise_for_status_def show_nat_500 build_request_def example_config_def)

lemma example_texts:
  "extract_message_text reply_8 = JStr ''8''"
  "extract_message_text reply_5 = JInt 5"
  by (simp_all add: reply_8_def reply_5_def extract_message_text_def extract_try_def
      nonempty_cons)

text \<open>
  \<^bold>\<open>C1\<close> (as the code has it). The two steps before the \<^verbatim>\<open>try\<close> are not contained:
  when the request context has no inbound message, \<open>execute\<close> raises
  \<open>No message in context\<close>, and when there is no current task and \<open>new_task\<close> raises for
  the message, that exception leaves \<open>execute\<close>; in both cases nothing is published.
  When the context has a message and a task is at hand, \<open>execute\<close> returns without
  raising and the last event it publishes is a final status event, completed or failed:
  every exception of the \<^verbatim>\<open>try\<close> block (of \<open>_call_langflow\<close>, or of the construction of
  the artifact) is resolved into the final failed status event, and a block that ends
  without one ends with the completed status event.
\<close>

theorem execute_raises_only_before_try:
  "(ctx_message ctx = None \<longrightarrow>
      execute ev cfg ctx w = (Inl (Exn Exception ''No message in context''), w))
   \<and> (ctx_message ctx = Some m \<and> task_of ev ctx m = Inl e0 \<longrightarrow>
        execute ev cfg ctx w = (Inl e0, w))
   \<and> (ctx_message ctx = Some m \<and> task_of ev ctx m = Inr t \<longrightarrow>
        fst (execute ev cfg ctx w) = Inr ()
        \<and> is_terminal_status (last (queue (snd (execute ev cfg ctx w))))
        \<and> (fst (execute_try ev cfg (user_input ctx) t w) = Inl e
            \<longrightarrow> last (queue (snd (execute ev cfg ctx w))) = failed_event t e)
        \<and> (fst (execute_try ev cfg (user_input ctx) t w) = Inr ()
            \<longrightarrow> last (queue (snd (execute ev cfg ctx w))) = completed_event t)
        \<and> (fst (call_langflow ev cfg (user_input ctx) (Some (task_contextId t)) w) = Inl e1
            \<longrightarrow> last (queue (snd (execute ev cfg ctx w))) = failed_event t e1)
        \<and> (fst (call_langflow ev cfg (user_input ctx) (Some (task_contextId t)) w) = Inr r
            \<and> new_text_artifact ev ''Langflow Response''
                 (''Response from Langflow for query: '' @ user_input ctx)
                 (extract_message_text r) = Inl e2
            \<longrightarrow> last (queue (snd (execute ev cfg ctx w))) = failed_event t e2))"
proof (intro conjI impI)
  assume "ctx_message ctx = None"
  then show "execute ev cfg ctx w = (Inl (Exn Exception ''No message in context''), w)"
    by (simp add: execute_def)
next
  assume "ctx_message ctx = Some m \<and> task_of ev ctx m = Inl e0"
  then show "execute ev cfg ctx w = (Inl e0, w)"
    by (simp add: execute_no_task)
next
  assume a: "ctx_message ctx = Some m \<and> task_of ev ctx m = Inr t"
  then have m: "ctx_message ctx = Some m" and t: "task_of ev ctx m = Inr t"
    by simp_all
  note o = execute_outcomes[OF m t, of cfg w]
  show "fst (execute ev cfg ctx w) = Inr ()"
    using o by simp
  show "is_terminal_status (last (queue (snd (execute ev cfg ctx w))))"
    using o by (auto simp add: event_reads)
  show "last (queue (snd (execute ev cfg ctx w))) = failed_event t e"
    if "fst (execute_try ev cfg (user_input ctx) t w) = Inl e"
  proof (cases rule: call_cases[of ev cfg "user_input ctx" "Some (task_contextId t)" w])
    case (ok response)
    show ?thesis
    proof (cases rule: new_text_artifact_cases[of "extract_message_text response"])
      case (str s)
      then show ?thesis using that by (simp add: execute_try_ok[OF ok str])
    next
      case other
      then show ?thesis
        using that
        by (simp add: execute_try_bad_text[OF ok other] execute_bad_text[OF m t ok other])
    qed
  next
    case (err e')
    then show ?thesis using that
      by (simp add: execute_try_err[OF err] execute_err[OF m t err])
  qed
  show "last (queue (snd (execute ev cfg ctx w))) = completed_event t"
    if "fst (execute_try ev cfg (user_input ctx) t w) = Inr ()"
  proof (cases rule: call_cases[of ev cfg "user_input ctx" "Some (task_contextId t)" w])
    case (ok response)
    show ?thesis
    proof (cases rule: new_text_artifact_cases[of "extract_message_text response"])
      case (str s)
      then show ?thesis by (simp add: execute_ok[OF m t ok str])
    next
      case other
      then show ?thesis
        using that by (simp add: execute_try_bad_text[OF ok other])
    qed
  next
    case (err e')
    then show ?thesis using that
      by (simp add: execute_try_err[OF err])
  qed
  show "last (queue (snd (execute ev cfg ctx w))) = failed_event t e1"
    if "fst (call_langflow ev cfg (user_input ctx) (Some (task_contextId t)) w) = Inl e1"
    using that by (simp add: execute_err[OF m t])
  show "last (queue (snd (execute ev cfg ctx w))) = failed_event t e2"
    if b: "fst (call_langflow ev cfg (user_input ctx) (Some (task_contextId t)) w) = Inr r
        \<and> new_text_artifact ev ''Langflow Response''
             (''Response from Langflow for query: '' @ user_input ctx)
             (extract_message_text r) = Inl e2"
  proof -
    have c: "fst (call_langflow ev cfg (user_input ctx) (Some (task_contextId t)) w) = Inr r"
      using b by simp
    have n: "\<forall>s. extract_message_text r \<noteq> JStr s"
      using b by (auto simp add: new_text_artifact_def)
    have "e2 = text_validation_error ev (extract_message_text r)"
      using b new_text_artifact_other[OF n] by simp
    then show ?thesis
      by (simp add: execute_bad_text[OF m t c n])
  qed
qed

theorem execute_raises_only_before_try_witness:
  "execute env_ok example_config context_no_message world0
     = (Inl (Exn Exception ''No message in context''), world0)
   \<and> execute env_ok example_config context_empty_text world0
     = (Inl (Exn ValueError ''TextPart content cannot be empty''), world0)
   \<and> fst (execute env_500 example_config context_with_task world0) = Inr ()
   \<and> last (queue (snd (execute env_500 example_config context_with_task world0)))
       = failed_event example_task
           (Exn HTTPError ''500 Server Error: Internal Server Error for url: http://h/api'')
   \<and> last (queue (snd (execute env_5 example_config context_with_task world0)))
       = failed_event example_task (text_validation_error env_5 (JInt 5))
   \<and> last (queue (snd (execute env_ok example_config context_with_task world0)))
       = completed_event example_task"
proof -
  have a: "execute env_ok example_config context_no_message world0
     = (Inl (Exn Exception ''No message in context''), world0)"
    using execute_raises_only_before_try [of context_no_message env_ok example_config world0]
    by (simp add: example_reads)
  have b: "execute env_ok example_config context_empty_text world0
     = (Inl (Exn ValueError ''TextPart content cannot be empty''), world0)"
    using execute_raises_only_before_try
            [of context_empty_text env_ok example_config world0 empty_message
                "Exn ValueError ''TextPart content cannot be empty''"]
    by (simp add: example_reads example_tasks)
  have c: "fst (execute env_500 example_config context_with_task world0) = Inr ()
     \<and> last (queue (snd (execute env_500 example_config context_with_task world0)))
       = failed_event example_task
           (Exn HTTPError ''500 Server Error: Internal Server Error for url: http://h/api'')"
    using execute_raises_only_before_try
            [where ctx = context_with_task and ev = env_500 and cfg = example_config
               and w = world0 and m = example_message and t = example_task
               and ?e1.0 = "Exn HTTPError
                  ''500 Server Error: Internal Server Error for url: http://h/api''"]
    by (simp add: example_reads example_tasks example_calls)
  have n: "new_text_artifact env_5 ''Langflow Response''
             (''Response from Langflow for query: '' @ user_input context_with_task)
             (extract_message_text reply_5) = Inl (text_validation_error env_5 (JInt 5))"
    by (simp add: example_texts new_text_artifact_def)
  have d: "last (queue (snd (execute env_5 example_config context_with_task world0)))
       = failed_event example_task (text_validation_error env_5 (JInt 5))"
    using execute_raises_only_before_try
            [where ctx = context_with_task and ev = env_5 and cfg = example_config
               and w = world0 and m = example_message and t = example_task
               and r = reply_5 and ?e2.0 = "text_validation_error env_5 (JInt 5)"]
          n
    by (simp add: example_reads example_tasks example_calls)
  have y: "fst (execute_try env_ok example_config (user_input context_with_task) example_task
                  world0) = Inr ()"
    by (simp add: execute_try_ok[OF example_calls(1) example_texts(1)])
  have e: "last (queue (snd (execute env_ok example_config context_with_task world0)))
       = completed_event example_task"
    using execute_raises_only_before_try
            [where ctx = context_with_task and ev = env_ok and cfg = example_config
               and w = world0 and m = example_message and t = example_task]
          y
    by (simp add: example_reads example_tasks)
  show ?thesis
    using a b c d e by simp
qed

text \<open>The claim as stated fails: without a message \<open>execute\<close> raises and publishes no
  event, and so it does, with a message, when \<open>new_task\<close> rejects the message.\<close>

theorem execute_without_message_raises:
  "fst (execute env_ok example_config context_no_message world0)
     = Inl (Exn Exception ''No message in context'')
   \<and> queue (snd (execute env_ok example_config context_no_message world0)) = []
   \<and> ctx_message context_empty_text = Some empty_message
   \<and> fst (execute env_ok example_config context_empty_text world0)
     = Inl (Exn ValueError ''TextPart content cannot be empty'')
   \<and> queue (snd (execute env_ok example_config context_empty_text world0)) = []"
proof -
  have a: "execute env_ok example_config context_no_message world0
      = (Inl (Exn Exception ''No message in context''), world0)"
    by (simp add: execute_def example_reads)
  have b: "execute env_ok example_config context_empty_text world0
      = (Inl (Exn ValueError ''TextPart content cannot be empty''), world0)"
    by (rule execute_no_task[OF example_reads(4) example_tasks(4)])
  show ?thesis
    by (simp add: a b example_reads)
qed
text \<open>
  \<^bold>\<open>C2\<close> (as the code has it). When the context has a message, a task is at hand,
  \<open>_call_langflow\<close> succeeds with \<open>response\<close> and the text extracted from it is a string,
  the events \<open>execute\<close> publishes are: the new task first when the context had no
  current task, then the working status event (not final), the artifact event with the
  extracted text, and the completed status event (final), in that order; each of them
  carries the task's id and context id.
\<close>

theorem execute_success_sequence:
  assumes "ctx_message ctx = Some m"
    and "task_of ev ctx m = Inr t"
    and "fst (call_langflow ev cfg (user_input ctx) (Some (task_contextId t)) w) = Inr response"
    and "extract_message_text response = JStr s"
  shows "queue (snd (execute ev cfg ctx w)) =
           queue w @ task_prefix ctx t @
             [working_event t, artifact_event t (response_artifact (user_input ctx) s),
              completed_event t]
         \<and> (current_task ctx \<noteq> None \<longrightarrow> task_prefix ctx t = [])
         \<and> (current_task ctx = None \<longrightarrow> task_prefix ctx t = [TaskEvent t])
         \<and> event_state (working_event t) = Some working
         \<and> \<not> is_final (working_event t)
         \<and> artifact_text (artifact_event t (response_artifact (user_input ctx) s)) = Some s
         \<and> \<not> is_final (artifact_event t (response_artifact (user_input ctx) s))
         \<and> event_state (completed_event t) = Some completed
         \<and> is_final (completed_event t)
         \<and> (\<forall>x \<in> set (drop (length (queue w)) (queue (snd (execute ev cfg ctx w)))).
                event_ids x = (task_id t, task_contextId t))"
proof -
  have q: "queue (snd (execute ev cfg ctx w)) =
           queue w @ task_prefix ctx t @
             [working_event t, artifact_event t (response_artifact (user_input ctx) s),
              completed_event t]"
    by (simp add: execute_ok[OF assms])
  have p: "(current_task ctx \<noteq> None \<longrightarrow> task_prefix ctx t = [])
         \<and> (current_task ctx = None \<longrightarrow> task_prefix ctx t = [TaskEvent t])"
    by (auto simp add: task_prefix_def)
  have i: "\<forall>x \<in> set (drop (length (queue w)) (queue (snd (execute ev cfg ctx w)))).
                event_ids x = (task_id t, task_contextId t)"
    using task_prefix_reads(3)[of ctx t] by (auto simp add: q event_reads)
  show ?thesis
    using q p i by (simp add: event_reads)
qed

theorem execute_success_sequence_witness:
  "queue (snd (execute env_ok example_config context_with_task world0)) =
     [working_event example_task,
      artifact_event example_task (response_artifact ''Calculate 4*4*(33/22)+12-20'' ''8''),
      completed_event example_task]
   \<and> queue (snd (execute env_ok example_config context_new world0)) =
     [TaskEvent (fresh_task example_message),
      working_event (fresh_task example_message),
      artifact_event (fresh_task example_message)
        (response_artifact ''Calculate 4*4*(33/22)+12-20'' ''8''),
      completed_event (fresh_task example_message)]"
proof -
  have a: "queue (snd (execute env_ok example_config context_with_task world0)) =
     [working_event example_task,
      artifact_event example_task (response_artifact ''Calculate 4*4*(33/22)+12-20'' ''8''),
      completed_event example_task]"
    using execute_success_sequence
            [OF example_reads(1) example_tasks(1) example_calls(1) example_texts(1),
             where w = world0]
    by (simp only: example_reads example_tasks) simp
  have b: "queue (snd (execute env_ok example_config context_new world0)) =
     [TaskEvent (fresh_task example_message),
      working_event (fresh_task example_message),
      artifact_event (fresh_task example_message)
        (response_artifact ''Calculate 4*4*(33/22)+12-20'' ''8''),
      completed_event (fresh_task example_message)]"
    using execute_success_sequence
            [OF example_reads(2) example_tasks(2) example_calls(1) example_texts(1),
             where w = world0]
    by (simp only: example_reads example_tasks) simp
  show ?thesis using a b by simp
qed

text \<open>The claim as stated fails in two ways. When the context has no current task,
  \<open>_call_langflow\<close> succeeds and four events are published, the new task first. When the
  call succeeds with a response whose text is the number 5, the construction of the
  artifact raises inside the \<^verbatim>\<open>try\<close> and the events are the working and the failed
  status, with no artifact.\<close>

theorem execute_success_begins_with_task:
  "fst (call_langflow env_ok example_config (user_input context_new)
          (Some (task_contextId (fresh_task example_message))) world0)
     = Inr reply_8
   \<and> queue (snd (execute env_ok example_config context_new world0)) \<noteq>
     [working_event (fresh_task example_message),
      artifact_event (fresh_task example_message)
        (response_artifact (user_input context_new) ''8''),
      completed_event (fresh_task example_message)]
   \<and> length (queue (snd (execute env_ok example_config context_new world0))) = 4
   \<and> hd (queue (snd (execute env_ok example_config context_new world0)))
       = TaskEvent (fresh_task example_message)
   \<and> fst (call_langflow env_5 example_config (user_input context_with_task)
          (Some (task_contextId example_task)) world0)
     = Inr reply_5
   \<and> queue (snd (execute env_5 example_config context_with_task world0)) =
     [working_event example_task,
      failed_event example_task (text_validation_error env_5 (JInt 5))]"
proof -
  have n: "\<forall>s. extract_message_text reply_5 \<noteq> JStr s"
    by (simp add: example_texts)
  have a: "queue (snd (execute env_ok example_config context_new world0)) =
     [TaskEvent (fresh_task example_message),
      working_event (fresh_task example_message),
      artifact_event (fresh_task example_message)
        (response_artifact (user_input context_new) ''8''),
      completed_event (fresh_task example_message)]"
    by (simp add: execute_ok[OF example_reads(2) example_tasks(2) example_calls(1)
          example_texts(1)] example_reads(10) example_tasks(6))
  have b: "queue (snd (execute env_5 example_config context_with_task world0)) =
     [working_event example_task,
      failed_event example_task (text_validation_error env_5 (JInt 5))]"
    by (simp add: execute_bad_text[OF example_reads(1) example_tasks(1) example_calls(2) n]
          example_reads(10) example_tasks(5) example_texts)
  show ?thesis
    by (simp add: a b example_calls)
qed

text \<open>
  \<^bold>\<open>C3\<close> (as the code has it). When the context has a message and \<open>_call_langflow\<close>
  raises \<open>e\<close>, the events \<open>execute\<close> publishes are: the new task first when the context
  had no current task, then the working status event (not final) and the failed status
  event (final); no artifact event is published, and the text of the failed event's
  message is \<open>Error processing request: \<close> followed by \<^verbatim>\<open>str(e)\<close>. (The call is made
  for a task, so the task is at hand.)
\<close>

theorem execute_failure_sequence:
  assumes "ctx_message ctx = Some m"
    and "task_of ev ctx m = Inr t"
    and "fst (call_langflow ev cfg (user_input ctx) (Some (task_contextId t)) w) = Inl e"
  shows "queue (snd (execute ev cfg ctx w)) =
           queue w @ task_prefix ctx t @ [working_event t, failed_event t e]
         \<and> (current_task ctx \<noteq> None \<longrightarrow> task_prefix ctx t = [])
         \<and> (current_task ctx = None \<longrightarrow> task_prefix ctx t = [TaskEvent t])
         \<and> event_state (working_event t) = Some working
         \<and> \<not> is_final (working_event t)
         \<and> event_state (failed_event t e) = Some failed
         \<and> is_final (failed_event t e)
         \<and> status_text (failed_event t e) = Some (''Error processing request: '' @ str e)
         \<and> filter is_artifact (drop (length (queue w)) (queue (snd (execute ev cfg ctx w)))) = []"
proof -
  have q: "queue (snd (execute ev cfg ctx w)) =
           queue w @ task_prefix ctx t @ [working_event t, failed_event t e]"
    by (simp add: execute_err[OF assms])
  have p: "(current_task ctx \<noteq> None \<longrightarrow> task_prefix ctx t = [])
         \<and> (current_task ctx = None \<longrightarrow> task_prefix ctx t = [TaskEvent t])"
    by (auto simp add: task_prefix_def)
  have a: "filter is_artifact (drop (length (queue w)) (queue (snd (execute ev cfg ctx w)))) = []"
    by (simp add: q event_reads task_prefix_reads)
  show ?thesis
    using q p a by (simp add: event_reads)
qed

theorem execute_failure_sequence_witness:
  "queue (snd (execute env_500 example_config context_with_task world0)) =
     [working_event example_task,
      failed_event example_task
        (Exn HTTPError ''500 Server Error: Internal Server Error for url: http://h/api'')]
   \<and> status_text (failed_event example_task
        (Exn HTTPError ''500 Server Error: Internal Server Error for url: http://h/api''))
      = Some ''Error processing request: 500 Server Error: Internal Server Error for url: http://h/api''"
  using execute_failure_sequence
          [OF example_reads(1) example_tasks(1) example_calls(3), where w = world0]
  by (simp only: example_reads example_tasks) simp

text \<open>The claim as stated fails when the context has no current task: \<open>_call_langflow\<close>
  raises and three events are published, the new task first.\<close>

theorem execute_failure_begins_with_task:
  "fst (call_langflow env_500 example_config (user_input context_new)
          (Some (task_contextId (fresh_task example_message))) world0)
     = Inl (Exn HTTPError ''500 Server Error: Internal Server Error for url: http://h/api'')
   \<and> queue (snd (execute env_500 example_config context_new world0)) \<noteq>
     [working_event (fresh_task example_message),
      failed_event (fresh_task example_message)
        (Exn HTTPError ''500 Server Error: Internal Server Error for url: http://h/api'')]
   \<and> length (queue (snd (execute env_500 example_config context_new world0))) = 3
   \<and> hd (queue (snd (execute env_500 example_config context_new world0)))
       = TaskEvent (fresh_task example_message)"
  by (simp add: execute_err[OF example_reads(2) example_tasks(3) example_calls(3)]
        example_reads(10) example_tasks(6) example_calls)

text \<open>
  \<^bold>\<open>C4\<close> (as the code has it). In every execution that has a message and a task at
  hand, \<open>_call_langflow\<close> is called once (one POST is added to those issued), exactly one
  of the events published has \<open>final = true\<close>, and every final event is a status event
  whose state is completed or failed, so never an artifact event. Without a message, or
  when \<open>new_task\<close> raises, there is no call and no event.
\<close>

theorem execute_one_call_one_final:
  "(ctx_message ctx = Some m \<and> task_of ev ctx m = Inr t \<longrightarrow>
      posts (snd (execute ev cfg ctx w)) =
        posts w @ [build_request cfg (user_input ctx) (Some (task_contextId t))]
      \<and> length (filter is_final (drop (length (queue w)) (queue (snd (execute ev cfg ctx w))))) = 1
      \<and> (\<forall>x \<in> set (drop (length (queue w)) (queue (snd (execute ev cfg ctx w)))).
            is_final x \<longrightarrow> is_terminal_status x \<and> \<not> is_artifact x))
   \<and> (ctx_message ctx = None \<longrightarrow> snd (execute ev cfg ctx w) = w)
   \<and> (ctx_message ctx = Some m \<and> task_of ev ctx m = Inl e \<longrightarrow> snd (execute ev cfg ctx w) = w)"
proof (intro conjI impI)
  assume "ctx_message ctx = None"
  then show "snd (execute ev cfg ctx w) = w"
    by (simp add: execute_def)
next
  assume "ctx_message ctx = Some m \<and> task_of ev ctx m = Inl e"
  then show "snd (execute ev cfg ctx w) = w"
    by (simp add: execute_no_task)
next
  assume "ctx_message ctx = Some m \<and> task_of ev ctx m = Inr t"
  then have m: "ctx_message ctx = Some m" and t: "task_of ev ctx m = Inr t"
    by simp_all
  note o = execute_outcomes[OF m t, of cfg w]
  show "posts (snd (execute ev cfg ctx w)) =
        posts w @ [build_request cfg (user_input ctx) (Some (task_contextId t))]"
    using o by simp
  show "length (filter is_final (drop (length (queue w)) (queue (snd (execute ev cfg ctx w))))) = 1"
    using o by (auto simp add: event_reads task_prefix_reads)
  show "\<forall>x \<in> set (drop (length (queue w)) (queue (snd (execute ev cfg ctx w)))).
            is_final x \<longrightarrow> is_terminal_status x \<and> \<not> is_artifact x"
    using o task_prefix_reads(4)[of ctx t] by (auto simp add: event_reads)
qed

theorem execute_one_call_one_final_witness:
  "posts (snd (execute env_ok example_config context_new world0)) =
     [build_request example_config ''Calculate 4*4*(33/22)+12-20'' (Some ''ctx-2'')]
   \<and> length (filter is_final (queue (snd (execute env_ok example_config context_new world0)))) = 1
   \<and> snd (execute env_ok example_config context_no_message world0) = world0
   \<and> snd (execute env_ok example_config context_empty_text world0) = world0"
proof -
  have u: "task_contextId (fresh_task example_message) = ''ctx-2''"
    by (simp add: fresh_task_def)
  show ?thesis
    using execute_one_call_one_final
            [of context_new example_message env_ok "fresh_task example_message"
                example_config world0]
          execute_one_call_one_final
            [of context_no_message _ env_ok _ example_config world0]
          execute_one_call_one_final
            [of context_empty_text empty_message env_ok _ example_config world0
                "Exn ValueError ''TextPart content cannot be empty''"]
    by (simp add: example_reads example_tasks u)
qed

text \<open>The claim as stated fails for a context without a message, and for one whose
  message \<open>new_task\<close> rejects: no call is made and no final event is published.\<close>

theorem execute_without_message_no_call:
  "posts (snd (execute env_ok example_config context_no_message world0)) = []
   \<and> filter is_final (queue (snd (execute env_ok example_config context_no_message world0))) = []
   \<and> ctx_message context_empty_text = Some empty_message
   \<and> posts (snd (execute env_ok example_config context_empty_text world0)) = []
   \<and> filter is_final (queue (snd (execute env_ok example_config context_empty_text world0))) = []"
proof -
  have a: "execute env_ok example_config context_no_message world0
      = (Inl (Exn Exception ''No message in context''), world0)"
    by (simp add: execute_def example_reads)
  have b: "execute env_ok example_config context_empty_text world0
      = (Inl (Exn ValueError ''TextPart content cannot be empty''), world0)"
    by (rule execute_no_task[OF example_reads(4) example_tasks(4)])
  show ?thesis
    by (simp add: a b example_reads)
qed

text \<open>
  \<^bold>\<open>C10\<close> (as the code has it). When the context has a message and no current task,
  \<open>execute\<close> calls \<open>new_task\<close> on the message. When that returns a task, \<open>execute\<close>
  publishes the task as its first event, before the working status event. When that
  raises, the exception leaves \<open>execute\<close> and nothing is published.
\<close>

theorem execute_new_task_first:
  "(ctx_message ctx = Some m \<and> current_task ctx = None \<and> new_task ev m = Inr t \<longrightarrow>
      (\<exists>rest. queue (snd (execute ev cfg ctx w)) =
                 queue w @ TaskEvent t # working_event t # rest))
   \<and> (ctx_message ctx = Some m \<and> current_task ctx = None \<and> new_task ev m = Inl e \<longrightarrow>
      execute ev cfg ctx w = (Inl e, w))"
proof (intro conjI impI)
  assume a: "ctx_message ctx = Some m \<and> current_task ctx = None \<and> new_task ev m = Inr t"
  then have m: "ctx_message ctx = Some m" and t: "task_of ev ctx m = Inr t"
    and p: "task_prefix ctx t = [TaskEvent t]"
    by (simp_all add: task_of_def task_prefix_def)
  show "\<exists>rest. queue (snd (execute ev cfg ctx w)) = queue w @ TaskEvent t # working_event t # rest"
    using execute_outcomes[OF m t, of cfg w] by (auto simp add: p)
next
  assume a: "ctx_message ctx = Some m \<and> current_task ctx = None \<and> new_task ev m = Inl e"
  then have m: "ctx_message ctx = Some m" and t: "task_of ev ctx m = Inl e"
    by (simp_all add: task_of_def)
  show "execute ev cfg ctx w = (Inl e, w)"
    by (rule execute_no_task[OF m t])
qed

theorem execute_new_task_first_witness:
  "take 2 (queue (snd (execute env_ok example_config context_new world0))) =
     [TaskEvent (fresh_task example_message), working_event (fresh_task example_message)]
   \<and> execute env_ok example_config context_empty_text world0
       = (Inl (Exn ValueError ''TextPart content cannot be empty''), world0)"
proof -
  have n: "new_task env_ok example_message = Inr (fresh_task example_message)"
    and f: "new_task env_ok empty_message = Inl (Exn ValueError ''TextPart content cannot be empty'')"
    by (simp_all add: env_ok_def checked_new_task_def example_message_def empty_message_def)
  obtain rest where "queue (snd (execute env_ok example_config context_new world0)) =
      queue world0 @ TaskEvent (fresh_task example_message)
        # working_event (fresh_task example_message) # rest"
    using execute_new_task_first
            [of context_new example_message env_ok "fresh_task example_message"
                example_config world0]
          n
    by (auto simp add: example_reads)
  then have a: "take 2 (queue (snd (execute env_ok example_config context_new world0))) =
     [TaskEvent (fresh_task example_message), working_event (fresh_task example_message)]"
    by (simp add: example_reads)
  have b: "execute env_ok example_config context_empty_text world0
       = (Inl (Exn ValueError ''TextPart content cannot be empty''), world0)"
    using execute_new_task_first
            [of context_empty_text empty_message env_ok _ example_config world0
                "Exn ValueError ''TextPart content cannot be empty''"]
          f
    by (simp add: example_reads)
  show ?thesis using a b by simp
qed

text \<open>The claim as stated fails for a message that \<open>new_task\<close> rejects: there is a
  message and no current task, and no task is published.\<close>

theorem execute_new_task_raises:
  "ctx_message context_empty_text = Some empty_message
   \<and> current_task context_empty_text = None
   \<and> fst (execute env_ok example_config context_empty_text world0)
       = Inl (Exn ValueError ''TextPart content cannot be empty'')
   \<and> queue (snd (execute env_ok example_config context_empty_text world0)) = []"
proof -
  have b: "execute env_ok example_config context_empty_text world0
      = (Inl (Exn ValueError ''TextPart content cannot be empty''), world0)"
    by (rule execute_no_task[OF example_reads(4) example_tasks(4)])
  show ?thesis
    by (simp add: b example_reads)
qed

section \<open>Properties of the workflow client\<close>

lemma rstrip_replicate: "rstrip c s @ replicate (length (takeWhile (\<lambda>x. x = c) (rev s))) c = s"
proof -
  have t: "takeWhile (\<lambda>x. x = c) (rev s)
             = replicate (length (takeWhile (\<lambda>x. x = c) (rev s))) c"
    by (rule replicate_length_same[symmetric]) (auto dest: set_takeWhileD)
  have "s = rev (takeWhile (\<lambda>x. x = c) (rev s) @ dropWhile (\<lambda>x. x = c) (rev s))"
    by simp
  also have "\<dots> = rstrip c s @ rev (takeWhile (\<lambda>x. x = c) (rev s))"
    by (simp only: rev_append rstrip_def)
  also have "\<dots> = rstrip c s @ replicate (length (takeWhile (\<lambda>x. x = c) (rev s))) c"
    using t by (metis rev_replicate)
  finally show ?thesis by simp
qed

lemma rstrip_id: "s \<noteq> [] \<Longrightarrow> last s \<noteq> c \<Longrightarrow> rstrip c s = s"
  by (cases s rule: rev_cases) (simp_all add: rstrip_def)

lemma rstrip_end: "rstrip c s = [] \<or> last (rstrip c s) \<noteq> c"
proof (cases "dropWhile (\<lambda>x. x = c) (rev s)")
  case Nil
  then show ?thesis by (simp add: rstrip_def)
next
  case (Cons a as)
  then have "a \<noteq> c"
    using hd_dropWhile[of "\<lambda>x. x = c" "rev s"] by auto
  then show ?thesis using Cons by (simp add: rstrip_def)
qed

text \<open>
  \<^bold>\<open>C7\<close> (as the code has it). For every response whose status code is from 400 to
  599, \<open>_call_langflow\<close> fails with the \<open>HTTPError\<close> of \<open>raise_for_status\<close>, a
  \<open>RequestException\<close>, and returns no parsed result. For every other status code,
  in the 2xx range or not, it returns what parsing the body as JSON gives.
\<close>

theorem call_langflow_status:
  assumes "http_post ev (build_request cfg q sid) = Inr r"
  shows "(400 \<le> status_code r \<and> status_code r < 600 \<longrightarrow>
            (\<exists>msg. fst (call_langflow ev cfg q sid w) = Inl (Exn HTTPError msg))
            \<and> is_RequestException HTTPError)
         \<and> (\<not> (400 \<le> status_code r \<and> status_code r < 600) \<longrightarrow>
            fst (call_langflow ev cfg q sid w) = resp_json r)"
  using assms by (auto simp add: call_langflow_fst raise_for_status_def)

theorem call_langflow_status_witness:
  "fst (call_langflow env_500 example_config ''hi'' None world0)
     = Inl (Exn HTTPError ''500 Server Error: Internal Server Error for url: http://h/api'')
   \<and> fst (call_langflow env_ok example_config ''hi'' None world0) = Inr reply_8"
proof -
  have a: "http_post env_500 (build_request example_config ''hi'' None)
      = Inr \<lparr>status_code = 500, reason = ''Internal Server Error'', resp_url = ''http://h/api'',
             resp_json = Inr (JObj [])\<rparr>"
    by (simp add: env_500_def respond_def build_request_def example_config_def)
  have b: "http_post env_ok (build_request example_config ''hi'' None)
      = Inr \<lparr>status_code = 200, reason = ''OK'', resp_url = ''http://h/api'',
             resp_json = Inr reply_8\<rparr>"
    by (simp add: env_ok_def respond_def build_request_def example_config_def)
  have "\<exists>msg. fst (call_langflow env_500 example_config ''hi'' None world0) = Inl (Exn HTTPError msg)"
    using call_langflow_status [OF a, of world0] by simp
  moreover have "fst (call_langflow env_ok example_config ''hi'' None world0) = Inr reply_8"
    using call_langflow_status [OF b, of world0] by simp
  ultimately show ?thesis
    by (auto simp add: call_langflow_fst a raise_for_status_def show_nat_500)
qed

text \<open>The claim as stated fails at the status 300: it is not in the 2xx range,
  \<open>raise_for_status\<close> raises nothing, and the parsed body is returned.\<close>

theorem call_langflow_returns_on_300:
  "http_post env_300 (build_request example_config ''hi'' None)
     = Inr \<lparr>status_code = 300, reason = ''Multiple Choices'', resp_url = ''http://h/api'',
            resp_json = Inr (JObj [])\<rparr>
   \<and> fst (call_langflow env_300 example_config ''hi'' None world0) = Inr (JObj [])"
  by (simp add: call_langflow_fst env_300_def respond_def build_request_def example_config_def
      raise_for_status_def)

text \<open>
  \<^bold>\<open>C8\<close> (as the code has it). \<open>_call_langflow\<close> issues one POST, to the URL the
  constructor stored: the configured URL without its trailing \<open>/\<close> characters, nothing
  appended. The POST goes to the configured URL itself when that does not end with \<open>/\<close>.
\<close>

theorem call_langflow_url:
  assumes "init url key = Inr cfg"
  shows "posts (snd (call_langflow ev cfg q sid w)) = posts w @ [build_request cfg q sid]
         \<and> req_url (build_request cfg q sid) = rstrip (CHR ''/'') url
         \<and> (\<exists>k. url = req_url (build_request cfg q sid) @ replicate k (CHR ''/''))
         \<and> (req_url (build_request cfg q sid) = []
              \<or> last (req_url (build_request cfg q sid)) \<noteq> CHR ''/'')
         \<and> (last url \<noteq> CHR ''/'' \<longrightarrow> req_url (build_request cfg q sid) = url)"
proof -
  have n: "url \<noteq> []" and c: "cfg = \<lparr>langflow_url = rstrip (CHR ''/'') url, api_key = key\<rparr>"
    using assms by (auto simp add: init_def split: if_splits)
  have u: "req_url (build_request cfg q sid) = rstrip (CHR ''/'') url"
    by (simp add: build_request_def c)
  have k: "\<exists>k. url = rstrip (CHR ''/'') url @ replicate k (CHR ''/'')"
    using rstrip_replicate[of "CHR ''/''" url] by metis
  show ?thesis
    using k rstrip_end[of "CHR ''/''" url] rstrip_id[OF n, of "CHR ''/''"]
    by (simp add: call_langflow_snd u)
qed

theorem call_langflow_url_witness:
  "map req_url (posts (snd (call_langflow env_ok example_config ''hi'' None world0)))
     = [''http://h/api'']"
proof -
  have i: "init ''http://h/api'' None = Inr example_config"
    by (simp add: init_def rstrip_def example_config_def)
  have h: "last ''http://h/api'' \<noteq> CHR ''/''" by simp
  note t = call_langflow_url [OF i, of env_ok "''hi''" None world0]
  from t have p: "posts (snd (call_langflow env_ok example_config ''hi'' None world0))
      = posts world0 @ [build_request example_config ''hi'' None]"
    by blast
  from t h have u: "req_url (build_request example_config ''hi'' None) = ''http://h/api''"
    by blast
  have e: "posts world0 = []"
    by (simp add: world0_def)
  show ?thesis
    by (simp add: p u e)
qed

text \<open>The claim as stated fails for a configured URL that ends with \<open>/\<close>: the POST goes
  to another string.\<close>

theorem call_langflow_strips_slash:
  "init ''http://h/'' None = Inr stripped_config
   \<and> map req_url (posts (snd (call_langflow env_ok stripped_config ''hi'' None world0)))
       = [''http://h'']
   \<and> ''http://h'' \<noteq> ''http://h/''"
  by (simp add: init_def rstrip_def stripped_config_def call_langflow_snd build_request_def
      world0_def)

end
